theory Spec2Isabelle
  imports Main "HOL-Library.Word"
begin

section \<open>Data model of hemera.go\<close>

text \<open>
  The Go package is a request/reply layer over a NATS connection.  The model keeps the
  structs of the source as records, Go's \<^verbatim>\<open>interface{}\<close> as a datatype of dynamically
  typed values, \<^verbatim>\<open>time.Duration\<close> and \<^verbatim>\<open>int64\<close> as 64-bit words, and every effect
  (calls on the connection, the log, the NUID generator) as explicit state.
\<close>

type_synonym bytes = "8 word list"

text \<open>\<^verbatim>\<open>time.Duration\<close> is an \<^verbatim>\<open>int64\<close> count of nanoseconds; \<open>*\<close> wraps around.\<close>

type_synonym Duration = "64 word"

definition Millisecond :: Duration where
  "Millisecond = 1000000"

definition Second :: Duration where
  "Second = 1000000000"

definition Hour :: Duration where
  "Hour = 3600000000000"

definition RequestType :: string where
  "RequestType = ''request''"

definition PubsubType :: string where
  "PubsubType = ''pubsub''"

definition RequestTimeout :: Duration where
  "RequestTimeout = 2000"

text \<open>
  Go \<^verbatim>\<open>error\<close> values.  The two package variables are distinct values carrying the
  same text; every error made outside the package (NATS, encoding/json, a user option)
  is an \<open>ExternalError\<close> with its message.
\<close>

datatype error = ErrAddTopicRequired | ErrActTopicRequired | ExternalError string

definition ErrTimeout :: error where
  "ErrTimeout = ExternalError ''nats: timeout''"

definition ErrInvalidConnection :: error where
  "ErrInvalidConnection = ExternalError ''nats: invalid connection''"

record Error =
  Name :: string
  Message :: string
  Code :: "16 word"

text \<open>
  A value held in an \<^verbatim>\<open>interface{}\<close>, tagged with its dynamic type: \<open>DError\<close> is a
  value of struct type \<^verbatim>\<open>Error\<close>, \<open>DErrorPtr\<close> a non-nil \<^verbatim>\<open>*Error\<close>, \<open>DMap\<close> a
  \<^verbatim>\<open>map[string]interface{}\<close>, \<open>DNamed\<close> a value of any other named type.
\<close>

datatype dyn =
    DNil
  | DBool bool
  | DInt int
  | DString string
  | DSlice "dyn list"
  | DMap "(string \<times> dyn) list"
  | DError Error
  | DErrorPtr Error
  | DNamed string dyn

text \<open>A Go map value: \<open>None\<close> is the nil map, the zero value of the type.\<close>

type_synonym gomap = "(string \<times> dyn) list option"

type_synonym Pattern = gomap

record Options =
  Timeout :: Duration

record request =
  ID :: string
  ReqType :: string

record trace =
  TraceID :: string
  ParentSpanID :: string
  SpanID :: string
  Timestamp :: "64 word"
  Service :: string
  Method :: string
  Duration :: "64 word"

record packet =
  Pattern :: Pattern
  Meta :: gomap
  Delegate :: gomap
  Result :: dyn
  Trace :: trace
  Request :: request
  Error :: "Error option"

text \<open>The zero values \<^verbatim>\<open>Error{}\<close> and \<^verbatim>\<open>packet{}\<close>.\<close>

definition zero_Error :: Error where
  "zero_Error = \<lparr>Name = [], Message = [], Code = 0\<rparr>"

definition zero_packet :: packet where
  "zero_packet =
     \<lparr>Pattern = None, Meta = None, Delegate = None, Result = DNil,
      Trace = \<lparr>TraceID = [], ParentSpanID = [], SpanID = [], Timestamp = 0,
               Service = [], Method = [], Duration = 0\<rparr>,
      Request = \<lparr>ID = [], ReqType = []\<rparr>,
      Error = None\<rparr>"

record Msg =
  Subject :: string
  Reply :: string
  Data :: bytes

section \<open>The world outside the package\<close>

text \<open>
  What the process does to its surroundings is an event list: the three calls the code
  makes on a live NATS connection, and the lines written to the log (by \<^verbatim>\<open>log.Fatal\<close>,
  or by a handler of the examples below).  \<open>nuid_seq\<close> counts the identifiers
  \<^verbatim>\<open>nuid.Next()\<close> has handed out.
\<close>

datatype event =
    EvQueueSubscribe string string
  | EvPublish string bytes
  | EvRequest string bytes Duration
  | EvLog string

fun is_transport :: "event \<Rightarrow> bool" where
  "is_transport (EvLog _) = False"
| "is_transport _ = True"

record world =
  events :: "event list"
  nuid_seq :: nat

definition emit :: "event \<Rightarrow> world \<Rightarrow> world" where
  "emit e w = w\<lparr>events := events w @ [e]\<rparr>"

text \<open>
  A call either returns to its caller or ends the process: \<^verbatim>\<open>log.Fatal\<close> prints its
  arguments and calls \<^verbatim>\<open>os.Exit(1)\<close>, so the statement written after it never runs.
\<close>

datatype 'a outcome = Returned 'a | Exited int

definition log_Fatal :: "string \<Rightarrow> world \<Rightarrow> 'a outcome \<times> world" where
  "log_Fatal msg w = (Exited 1, emit (EvLog msg) w)"

text \<open>
  The libraries the package calls are parameters of the model: \<^verbatim>\<open>json.Marshal\<close>,
  \<^verbatim>\<open>json.Unmarshal\<close> (which writes into the struct it is given and returns an error or
  nil) and the sequence of identifiers of \<^verbatim>\<open>nuid\<close>.
\<close>

record env =
  Marshal :: "packet \<Rightarrow> bytes \<times> error option"
  Unmarshal :: "bytes \<Rightarrow> packet \<Rightarrow> packet \<times> error option"
  Nuid :: "nat \<Rightarrow> string"

definition nuid_Next :: "env \<Rightarrow> world \<Rightarrow> string \<times> world" where
  "nuid_Next e w = (Nuid e (nuid_seq w), w\<lparr>nuid_seq := Suc (nuid_seq w)\<rparr>)"

text \<open>
  A live connection answers a request with a message or an error (a timeout is
  \<open>ErrTimeout\<close>).  \<^verbatim>\<open>*nats.Conn\<close> may be nil: its methods then return
  \<open>ErrInvalidConnection\<close> and do nothing.
\<close>

record NatsConn =
  nc_Request :: "string \<Rightarrow> bytes \<Rightarrow> Duration \<Rightarrow> error + Msg"

type_synonym MsgHandler = "Msg \<Rightarrow> world \<Rightarrow> world"

record subscription =
  sub_subject :: string
  sub_queue :: string
  sub_cb :: MsgHandler

definition conn_QueueSubscribe ::
  "NatsConn option \<Rightarrow> string \<Rightarrow> string \<Rightarrow> MsgHandler \<Rightarrow> world \<Rightarrow> subscription list \<times> world" where
  "conn_QueueSubscribe c subj queue cb w =
     (case c of
        None \<Rightarrow> ([], w)
      | Some _ \<Rightarrow> ([\<lparr>sub_subject = subj, sub_queue = queue, sub_cb = cb\<rparr>],
                   emit (EvQueueSubscribe subj queue) w))"

definition conn_Publish :: "NatsConn option \<Rightarrow> string \<Rightarrow> bytes \<Rightarrow> world \<Rightarrow> world" where
  "conn_Publish c subj data w =
     (case c of None \<Rightarrow> w | Some _ \<Rightarrow> emit (EvPublish subj data) w)"

definition conn_Request ::
  "NatsConn option \<Rightarrow> string \<Rightarrow> bytes \<Rightarrow> Duration \<Rightarrow> world \<Rightarrow> (error + Msg) \<times> world" where
  "conn_Request c subj data timeout w =
     (case c of
        None \<Rightarrow> (Inl ErrInvalidConnection, w)
      | Some nc \<Rightarrow> (nc_Request nc subj data timeout, emit (EvRequest subj data timeout) w))"

section \<open>The package\<close>

record Hemera =
  Conn :: "NatsConn option"
  Opts :: Options

type_synonym Option = "Options \<Rightarrow> Options \<times> error option"

type_synonym Reply = "dyn \<Rightarrow> world \<Rightarrow> world"

type_synonym addHandler = "Pattern \<Rightarrow> Reply \<Rightarrow> world \<Rightarrow> world"

type_synonym actHandler = "dyn \<Rightarrow> world \<Rightarrow> world"

definition GetDefaultOptions :: Options where
  "GetDefaultOptions = \<lparr>Timeout = RequestTimeout\<rparr>"

text \<open>The loop of \<^verbatim>\<open>NewHemera\<close> over its options, stopping at the first error.\<close>

fun apply_options :: "Option list \<Rightarrow> Options \<Rightarrow> Options \<times> error option" where
  "apply_options [] opts = (opts, None)"
| "apply_options (opt # rest) opts =
     (case opt opts of
        (opts', Some err) \<Rightarrow> (opts', Some err)
      | (opts', None) \<Rightarrow> apply_options rest opts')"

definition NewHemera :: "NatsConn option \<Rightarrow> Option list \<Rightarrow> Hemera \<times> error option" where
  "NewHemera conn options =
     (case apply_options options GetDefaultOptions of
        (opts, Some err) \<Rightarrow> (\<lparr>Conn = None, Opts = opts\<rparr>, Some err)
      | (opts, None) \<Rightarrow> (\<lparr>Conn = conn, Opts = opts\<rparr>, None))"

definition Timeout_opt :: "Duration \<Rightarrow> Option" where
  "Timeout_opt t = (\<lambda>opts. (opts\<lparr>Timeout := t\<rparr>, None))"

text \<open>\<^verbatim>\<open>p[k]\<close> on a Go map: the zero value (a nil interface) when the key is absent.\<close>

definition index_map :: "gomap \<Rightarrow> string \<Rightarrow> dyn" where
  "index_map p k =
     (case p of
        None \<Rightarrow> DNil
      | Some kvs \<Rightarrow> (case map_of kvs k of None \<Rightarrow> DNil | Some v \<Rightarrow> v))"

text \<open>The two-result type assertions \<^verbatim>\<open>v.(string)\<close> and \<^verbatim>\<open>v.(Error)\<close>.\<close>

fun assert_string :: "dyn \<Rightarrow> string \<times> bool" where
  "assert_string (DString s) = (s, True)"
| "assert_string _ = ([], False)"

fun assert_Error :: "dyn \<Rightarrow> Error \<times> bool" where
  "assert_Error (DError e) = (e, True)"
| "assert_Error _ = (zero_Error, False)"

text \<open>The envelope both \<^verbatim>\<open>Add\<close>'s reply callback and \<^verbatim>\<open>Act\<close> start from.\<close>

definition new_packet :: "Pattern \<Rightarrow> string \<Rightarrow> packet" where
  "new_packet p ident =
     zero_packet\<lparr>Pattern := p, Request := \<lparr>ID = ident, ReqType = RequestType\<rparr>\<rparr>"

text \<open>Lines 130-136: the payload goes to \<open>Error\<close> or to \<open>Result\<close>.\<close>

definition fill_response :: "packet \<Rightarrow> dyn \<Rightarrow> packet" where
  "fill_response response payload =
     (case assert_Error payload of
        (he, True) \<Rightarrow> response\<lparr>Error := Some he\<rparr>
      | (he, False) \<Rightarrow> response\<lparr>Result := payload\<rparr>)"

text \<open>The reply callback handed to the user's handler (lines 121-141).\<close>

definition replyFn :: "env \<Rightarrow> Hemera \<Rightarrow> Pattern \<Rightarrow> Msg \<Rightarrow> Reply" where
  "replyFn e h p m payload w =
     (let (ident, w1) = nuid_Next e w;
          response = fill_response (new_packet p ident) payload;
          (data, _) = Marshal e response
      in conn_Publish (Conn h) (Reply m) data w1)"

text \<open>The closure \<^verbatim>\<open>Add\<close> subscribes (lines 117-142); the decode error is dropped.\<close>

definition onMessage :: "env \<Rightarrow> Hemera \<Rightarrow> Pattern \<Rightarrow> addHandler \<Rightarrow> MsgHandler" where
  "onMessage e h p handler m w =
     (let (pack, _) = Unmarshal e (Data m) zero_packet
      in handler (Pattern pack) (replyFn e h p m) w)"

definition Add ::
  "env \<Rightarrow> Hemera \<Rightarrow> Pattern \<Rightarrow> addHandler \<Rightarrow> world
     \<Rightarrow> (bool \<times> error option) outcome \<times> subscription list \<times> world" where
  "Add e h p handler w =
     (case assert_string (index_map p ''topic'') of
        (topic, False) \<Rightarrow>
          (case log_Fatal ''Topic is required in Add definition'' w of
             (out, w') \<Rightarrow> (out, [], w'))
      | (topic, True) \<Rightarrow>
          (case conn_QueueSubscribe (Conn h) topic topic (onMessage e h p handler) w of
             (subs, w') \<Rightarrow> (Returned (True, None), subs, w')))"

text \<open>Lines 168-187 of \<^verbatim>\<open>Act\<close>: what is done with the answer of the connection.\<close>

definition act_receive ::
  "env \<Rightarrow> actHandler \<Rightarrow> error + Msg \<Rightarrow> world \<Rightarrow> (bool \<times> error option) outcome \<times> world" where
  "act_receive e handler res w =
     (case res of
        Inl err \<Rightarrow> log_Fatal ''Act could not be executed'' w
      | Inr m \<Rightarrow>
          (case Unmarshal e (Data m) zero_packet of
             (pack, Some mErr) \<Rightarrow> log_Fatal ''Act response could not be unmarshalled'' w
           | (pack, None) \<Rightarrow>
               (case Error pack of
                  Some he \<Rightarrow> (Returned (True, None), handler (DErrorPtr he) w)
                | None \<Rightarrow> (Returned (True, None), handler (Result pack) w))))"

definition Act ::
  "env \<Rightarrow> Hemera \<Rightarrow> Pattern \<Rightarrow> actHandler \<Rightarrow> world
     \<Rightarrow> (bool \<times> error option) outcome \<times> world" where
  "Act e h p handler w =
     (case assert_string (index_map p ''topic'') of
        (topic, False) \<Rightarrow> log_Fatal ''Topic is required in Act call'' w
      | (topic, True) \<Rightarrow>
          (let (ident, w1) = nuid_Next e w;
               (data, _) = Marshal e (new_packet p ident);
               (res, w2) = conn_Request (Conn h) topic data (Timeout (Opts h) * Millisecond) w1
           in act_receive e handler res w2))"

section \<open>Concrete collaborators for the examples\<close>

text \<open>
  A small stand-in for encoding/json, enough to run the code on concrete messages.
  The empty input is a syntax error, on which \<^verbatim>\<open>json.Unmarshal\<close> writes nothing.
  The one-byte input \<open>[0]\<close> stands for
  \<^verbatim>\<open>{"pattern":{"topic":"math"},"request":0}\<close>: encoding/json decodes the fields it
  can, skips the ill-typed one and returns an \<^verbatim>\<open>UnmarshalTypeError\<close>.  \<open>[1]\<close> is a
  reply carrying the result 5, \<open>[2]\<close> a reply carrying an error, anything else a
  request for topic math.
\<close>

definition ex_Error :: Error where
  "ex_Error = \<lparr>Name = ''DivByZero'', Message = ''b=0'', Code = 400\<rparr>"

definition ex_Unmarshal :: "bytes \<Rightarrow> packet \<Rightarrow> packet \<times> error option" where
  "ex_Unmarshal d pk =
     (if d = [] then (pk, Some (ExternalError ''unexpected end of JSON input''))
      else if d = [0] then
        (pk\<lparr>Pattern := Some [(''topic'', DString ''math'')]\<rparr>,
         Some (ExternalError ''json: cannot unmarshal number into Go struct field packet.request''))
      else if d = [1] then (pk\<lparr>Result := DInt 5\<rparr>, None)
      else if d = [2] then (pk\<lparr>Error := Some ex_Error\<rparr>, None)
      else (pk\<lparr>Pattern := Some [(''topic'', DString ''math'')],
                Request := \<lparr>ID = ''abc'', ReqType = ''request''\<rparr>\<rparr>, None))"

text \<open>The stand-in encoder writes the correlation id, one byte per character.\<close>

definition ex_Marshal :: "packet \<Rightarrow> bytes \<times> error option" where
  "ex_Marshal pk = (map (\<lambda>c. of_nat (of_char c)) (ID (Request pk)), None)"

definition ex_env :: env where
  "ex_env = \<lparr>Marshal = ex_Marshal, Unmarshal = ex_Unmarshal,
             Nuid = (\<lambda>n. replicate (Suc n) CHR ''N'')\<rparr>"

definition ex_world :: world where
  "ex_world = \<lparr>events = [], nuid_seq = 0\<rparr>"

definition ex_pattern :: Pattern where
  "ex_pattern = Some [(''topic'', DString ''math''), (''a'', DInt 2), (''b'', DInt 3)]"

text \<open>A connection on which nobody answers, and one that answers with fixed bytes.\<close>

definition ex_conn_silent :: NatsConn where
  "ex_conn_silent = \<lparr>nc_Request = (\<lambda>subj data t. Inl ErrTimeout)\<rparr>"

definition ex_conn_answer :: "bytes \<Rightarrow> NatsConn" where
  "ex_conn_answer d =
     \<lparr>nc_Request = (\<lambda>subj data t. Inr \<lparr>Subject = ''_INBOX.1'', Reply = [], Data = d\<rparr>)\<rparr>"

definition ex_msg :: "bytes \<Rightarrow> Msg" where
  "ex_msg d = \<lparr>Subject = ''math'', Reply = ''_INBOX.7'', Data = d\<rparr>"

text \<open>Handlers that leave a trace of what they were called with.\<close>

fun describe :: "dyn \<Rightarrow> string" where
  "describe DNil = ''nil''"
| "describe (DError he) = ''Error '' @ Name he"
| "describe (DErrorPtr he) = ''*Error '' @ Name he"
| "describe (DString s) = ''string '' @ s"
| "describe (DInt i) = (if i = 5 then ''int 5'' else ''int'')"
| "describe _ = ''other''"

definition ex_actHandler :: actHandler where
  "ex_actHandler v w = emit (EvLog (''handler got '' @ describe v)) w"

definition ex_addHandler :: addHandler where
  "ex_addHandler pat reply w =
     emit (EvLog (''handler got topic '' @ fst (assert_string (index_map pat ''topic'')))) w"

text \<open>An option that reports an error.\<close>

definition ex_failing_opt :: Option where
  "ex_failing_opt = (\<lambda>opts. (opts, Some (ExternalError ''bad option'')))"

section \<open>Shared lemmas\<close>

lemma replyFn_unfold:
  "replyFn e h p m payload w =
     conn_Publish (Conn h) (Reply m)
       (fst (Marshal e (fill_response (new_packet p (Nuid e (nuid_seq w))) payload)))
       (w\<lparr>nuid_seq := Suc (nuid_seq w)\<rparr>)"
  by (simp add: replyFn_def nuid_Next_def split: prod.splits)

lemma Act_with_topic:
  assumes "assert_string (index_map p ''topic'') = (topic, True)"
  shows "Act e h p handler w =
     (case conn_Request (Conn h) topic
             (fst (Marshal e (new_packet p (Nuid e (nuid_seq w)))))
             (Timeout (Opts h) * Millisecond) (w\<lparr>nuid_seq := Suc (nuid_seq w)\<rparr>) of
        (res, w2) \<Rightarrow> act_receive e handler res w2)"
  using assms by (simp add: Act_def nuid_Next_def split: prod.splits)

lemma fill_response_Error:
  "fill_response r (DError he) = r\<lparr>Error := Some he\<rparr>"
  by (simp add: fill_response_def)

lemma fill_response_other:
  "\<not> snd (assert_Error payload) \<Longrightarrow> fill_response r payload = r\<lparr>Result := payload\<rparr>"
  by (cases payload) (simp_all add: fill_response_def)

lemma assert_Error_iff: "snd (assert_Error payload) \<longleftrightarrow> (\<exists>he. payload = DError he)"
  by (cases payload) simp_all

lemma onMessage_unfold:
  "onMessage e h p handler m w =
     handler (Pattern (fst (Unmarshal e (Data m) zero_packet))) (replyFn e h p m) w"
  by (simp add: onMessage_def split: prod.splits)

lemma replyFn_ignores_Unmarshal:
  "replyFn (e\<lparr>Unmarshal := um\<rparr>) h p m = replyFn e h p m"
  by (rule ext, rule ext) (simp add: replyFn_unfold)

lemma Add_with_topic:
  assumes "assert_string (index_map p ''topic'') = (topic, True)" and "Conn h \<noteq> None"
  shows "Add e h p handler w =
     (Returned (True, None),
      [\<lparr>sub_subject = topic, sub_queue = topic, sub_cb = onMessage e h p handler\<rparr>],
      emit (EvQueueSubscribe topic topic) w)"
  using assms by (auto simp: Add_def conn_QueueSubscribe_def)

text \<open>\<^verbatim>\<open>t * time.Millisecond\<close> is exact as long as the product fits into an \<^verbatim>\<open>int64\<close>.\<close>

lemma sint_times_Millisecond:
  fixes t :: Duration
  assumes "- (2 ^ 63) \<le> sint t * 1000000" and "sint t * 1000000 < 2 ^ 63"
  shows "sint (t * Millisecond) = sint t * 1000000"
proof -
  have "sint (t * Millisecond) = signed_take_bit 63 (sint t * sint Millisecond)"
    by (simp add: sint_word_ariths)
  also have "sint Millisecond = 1000000"
    by (simp add: Millisecond_def)
  finally show ?thesis
    using assms by (simp add: signed_take_bit_int_eq_self)
qed

text \<open>The loop over the options, split at any point of the list.\<close>

lemma apply_options_append:
  "apply_options (pre @ rest) opts =
     (case apply_options pre opts of
        (opts', Some err) \<Rightarrow> (opts', Some err)
      | (opts', None) \<Rightarrow> apply_options rest opts')"
  by (induction pre arbitrary: opts) (auto split: prod.splits option.splits)

lemma NewHemera_Timeout_last:
  assumes "snd (apply_options pre GetDefaultOptions) = None"
  shows "NewHemera conn (pre @ [Timeout_opt t]) = (\<lparr>Conn = conn, Opts = \<lparr>Timeout = t\<rparr>\<rparr>, None)"
proof -
  obtain opts' where "apply_options pre GetDefaultOptions = (opts', None)"
    using assms by (cases "apply_options pre GetDefaultOptions") simp
  then show ?thesis
    by (simp add: NewHemera_def apply_options_append Timeout_opt_def)
qed

lemma ex_topic: "assert_string (index_map ex_pattern ''topic'') = (''math'', True)"
  by (simp add: ex_pattern_def index_map_def)

section \<open>Missing topic\<close>

text \<open>
  C1.  The claim: a pattern without a string \<open>topic\<close> makes \<^verbatim>\<open>Add\<close> and \<^verbatim>\<open>Act\<close> return
  \<open>ok = false\<close> with the topic-required error, without transport I/O, and control comes
  back to the caller.  What the code does on the empty pattern \<^verbatim>\<open>{}\<close>, for every
  connection, handler and world: no call on the connection and no subscription, but
  \<^verbatim>\<open>log.Fatal\<close> ends the process with status 1, so the \<^verbatim>\<open>return false, Err...\<close> written
  after it is never reached.
\<close>

theorem Add_Act_missing_topic_exits:
  "Add e h (Some []) handler w =
     (Exited 1, [], emit (EvLog ''Topic is required in Add definition'') w)
   \<and> Act e h (Some []) handler' w =
     (Exited 1, emit (EvLog ''Topic is required in Act call'') w)
   \<and> filter is_transport (events (emit (EvLog msg) w)) = filter is_transport (events w)"
  by (simp add: Add_def Act_def index_map_def log_Fatal_def emit_def)

section \<open>The answer of the connection\<close>

text \<open>
  C2.  The claim: when no reply arrives within the timeout, \<^verbatim>\<open>Act\<close> reports the timeout
  error through its \<open>(ok, error)\<close> pair, never calls the handler and does not abort the
  process.  On a connection where nobody answers, the code sends the request, does not
  call the handler, and then \<^verbatim>\<open>log.Fatal\<close> ends the process instead of returning
  \<open>(false, err)\<close>.
\<close>

theorem Act_timeout_exits:
  "Act ex_env \<lparr>Conn = Some ex_conn_silent, Opts = GetDefaultOptions\<rparr> ex_pattern ex_actHandler ex_world =
     (Exited 1,
      \<lparr>events = [EvRequest ''math'' [78] 2000000000, EvLog ''Act could not be executed''],
       nuid_seq = 1\<rparr>)"
  by (simp add: Act_with_topic [OF ex_topic] conn_Request_def ex_conn_silent_def act_receive_def
      log_Fatal_def emit_def ex_world_def ex_env_def ex_Marshal_def new_packet_def zero_packet_def
      GetDefaultOptions_def RequestTimeout_def Millisecond_def)

text \<open>
  C8.  The claim: when the request succeeds and the reply bytes do not unmarshal, \<^verbatim>\<open>Act\<close>
  returns \<open>(false, nil)\<close>, the nil being the transport's error variable.  On a reply
  that is a JSON syntax error the code reaches \<^verbatim>\<open>log.Fatal\<close> first: the process ends
  and \<^verbatim>\<open>return false, err\<close> is not executed.
\<close>

theorem Act_undecodable_reply_exits:
  "Act ex_env \<lparr>Conn = Some (ex_conn_answer []), Opts = GetDefaultOptions\<rparr> ex_pattern ex_actHandler ex_world =
     (Exited 1,
      \<lparr>events = [EvRequest ''math'' [78] 2000000000,
                 EvLog ''Act response could not be unmarshalled''],
       nuid_seq = 1\<rparr>)"
  by (simp add: Act_with_topic [OF ex_topic] conn_Request_def ex_conn_answer_def act_receive_def
      log_Fatal_def emit_def ex_world_def ex_env_def ex_Marshal_def ex_Unmarshal_def new_packet_def
      zero_packet_def GetDefaultOptions_def RequestTimeout_def Millisecond_def)

text \<open>
  C3.  For every call of \<^verbatim>\<open>Act\<close> whose pattern has a string topic, whose request is
  answered by a message and whose reply decodes without error, \<^verbatim>\<open>Act\<close> returns
  \<open>(true, nil)\<close> and the world after it is the handler applied once to the world left by
  the request: to the envelope's error (as the \<^verbatim>\<open>*Error\<close> the envelope holds) when that
  field is populated, and to the envelope's result otherwise.  The error of the envelope
  never shows up in the returned pair.
\<close>

theorem Act_reply_to_handler:
  assumes "assert_string (index_map p ''topic'') = (topic, True)"
    and "conn_Request (Conn h) topic (fst (Marshal e (new_packet p (Nuid e (nuid_seq w)))))
           (Timeout (Opts h) * Millisecond) (w\<lparr>nuid_seq := Suc (nuid_seq w)\<rparr>) = (Inr m, w2)"
    and "Unmarshal e (Data m) zero_packet = (pack, None)"
  shows "Act e h p handler w =
     (Returned (True, None),
      handler (case Error pack of Some he \<Rightarrow> DErrorPtr he | None \<Rightarrow> Result pack) w2)"
  using assms(2,3) by (simp add: Act_with_topic [OF assms(1)] act_receive_def split: option.splits)

theorem Act_reply_to_handler_witness:
  "Act ex_env \<lparr>Conn = Some (ex_conn_answer [2]), Opts = GetDefaultOptions\<rparr> ex_pattern ex_actHandler ex_world =
     (Returned (True, None),
      \<lparr>events = [EvRequest ''math'' [78] 2000000000, EvLog ''handler got *Error DivByZero''],
       nuid_seq = 1\<rparr>)
   \<and> Act ex_env \<lparr>Conn = Some (ex_conn_answer [1]), Opts = GetDefaultOptions\<rparr> ex_pattern ex_actHandler ex_world =
     (Returned (True, None),
      \<lparr>events = [EvRequest ''math'' [78] 2000000000, EvLog ''handler got int 5''],
       nuid_seq = 1\<rparr>)"
proof -
  let ?w2 = "\<lparr>events = [EvRequest ''math'' [78] 2000000000], nuid_seq = 1\<rparr>"
  have rq: "conn_Request (Conn \<lparr>Conn = Some (ex_conn_answer d), Opts = GetDefaultOptions\<rparr>) ''math''
          (fst (Marshal ex_env (new_packet ex_pattern (Nuid ex_env (nuid_seq ex_world)))))
          (Timeout (Opts \<lparr>Conn = Some (ex_conn_answer d), Opts = GetDefaultOptions\<rparr>) * Millisecond)
          (ex_world\<lparr>nuid_seq := Suc (nuid_seq ex_world)\<rparr>) =
        (Inr \<lparr>Subject = ''_INBOX.1'', Reply = [], Data = d\<rparr>, ?w2)" for d
    by (simp add: conn_Request_def ex_conn_answer_def emit_def ex_world_def ex_env_def
        ex_Marshal_def new_packet_def zero_packet_def GetDefaultOptions_def RequestTimeout_def
        Millisecond_def)
  have d2: "Unmarshal ex_env (Data \<lparr>Subject = ''_INBOX.1'', Reply = [], Data = [2]\<rparr>) zero_packet =
        (zero_packet\<lparr>Error := Some ex_Error\<rparr>, None)"
    by (simp add: ex_env_def ex_Unmarshal_def)
  have d1: "Unmarshal ex_env (Data \<lparr>Subject = ''_INBOX.1'', Reply = [], Data = [1]\<rparr>) zero_packet =
        (zero_packet\<lparr>Result := DInt 5\<rparr>, None)"
    by (simp add: ex_env_def ex_Unmarshal_def)
  show ?thesis
    using Act_reply_to_handler [OF ex_topic rq d2, of ex_actHandler]
      Act_reply_to_handler [OF ex_topic rq d1, of ex_actHandler]
    by (simp add: ex_actHandler_def emit_def ex_Error_def zero_packet_def)
qed

section \<open>The responder\<close>



text \<open>
  C5.  The responder subscribed by \<^verbatim>\<open>Add\<close> hands the user's handler a reply callback
  that, for every payload, takes a new identifier from the generator (which advances),
  builds an envelope with that identifier, the type \<open>request\<close> and the pattern given to
  \<^verbatim>\<open>Add\<close>, and publishes its encoding to the reply subject of the inbound message.
  Nothing of the inbound envelope enters the reply: other inbound bytes and another
  decoder give the same reply.
\<close>

theorem reply_fresh_id_original_pattern:
  "replyFn e h p m payload w =
     conn_Publish (Conn h) (Reply m)
       (fst (Marshal e (fill_response (new_packet p (fst (nuid_Next e w))) payload)))
       (snd (nuid_Next e w))
   \<and> Request (fill_response (new_packet p ident) payload) = \<lparr>ID = ident, ReqType = RequestType\<rparr>
   \<and> Pattern (fill_response (new_packet p ident) payload) = p
   \<and> nuid_seq (replyFn e h p m payload w) = Suc (nuid_seq w)
   \<and> (Conn h \<noteq> None \<longrightarrow>
        events (replyFn e h p m payload w) =
          events w @ [EvPublish (Reply m)
            (fst (Marshal e (fill_response (new_packet p (Nuid e (nuid_seq w))) payload)))])
   \<and> replyFn (e\<lparr>Unmarshal := um\<rparr>) h p (m\<lparr>Data := d\<rparr>) payload w = replyFn e h p m payload w
   \<and> onMessage e h p handler m w =
       handler (Pattern (fst (Unmarshal e (Data m) zero_packet))) (replyFn e h p m) w
   \<and> (assert_string (index_map p ''topic'') = (topic, True) \<and> Conn h \<noteq> None \<longrightarrow>
        Add e h p handler w =
          (Returned (True, None),
           [\<lparr>sub_subject = topic, sub_queue = topic, sub_cb = onMessage e h p handler\<rparr>],
           emit (EvQueueSubscribe topic topic) w))"
proof -
  have built: "Request (fill_response (new_packet p ident) payload) = \<lparr>ID = ident, ReqType = RequestType\<rparr>
      \<and> Pattern (fill_response (new_packet p ident) payload) = p"
    by (cases payload) (simp_all add: fill_response_def new_packet_def)
  have sent: "replyFn e h p m payload w =
     conn_Publish (Conn h) (Reply m)
       (fst (Marshal e (fill_response (new_packet p (fst (nuid_Next e w))) payload)))
       (snd (nuid_Next e w))"
    by (simp add: replyFn_unfold nuid_Next_def)
  have counted: "nuid_seq (replyFn e h p m payload w) = Suc (nuid_seq w)"
    by (simp add: replyFn_unfold conn_Publish_def emit_def split: option.splits)
  have logged: "Conn h \<noteq> None \<longrightarrow>
        events (replyFn e h p m payload w) =
          events w @ [EvPublish (Reply m)
            (fst (Marshal e (fill_response (new_packet p (Nuid e (nuid_seq w))) payload)))]"
    by (auto simp: replyFn_unfold conn_Publish_def emit_def)
  have indep: "replyFn (e\<lparr>Unmarshal := um\<rparr>) h p (m\<lparr>Data := d\<rparr>) payload w = replyFn e h p m payload w"
    by (simp add: replyFn_unfold)
  show ?thesis
    using built sent counted logged indep Add_with_topic [of p topic h e handler w]
    by (simp add: onMessage_unfold)
qed

theorem reply_fresh_id_original_pattern_witness:
  "fst (Unmarshal ex_env (Data (ex_msg [3])) zero_packet) =
     zero_packet\<lparr>Pattern := Some [(''topic'', DString ''math'')],
                 Request := \<lparr>ID = ''abc'', ReqType = ''request''\<rparr>\<rparr>
   \<and> events (replyFn ex_env \<lparr>Conn = Some ex_conn_silent, Opts = GetDefaultOptions\<rparr> ex_pattern
       (ex_msg [3]) (DInt 5) ex_world) =
     [EvPublish ''_INBOX.7'' (fst (Marshal ex_env
        (zero_packet\<lparr>Pattern := ex_pattern, Result := DInt 5,
                     Request := \<lparr>ID = ''N'', ReqType = ''request''\<rparr>\<rparr>)))]"
proof -
  have live: "Conn \<lparr>Conn = Some ex_conn_silent, Opts = GetDefaultOptions\<rparr> \<noteq> None"
    by simp
  have "events (replyFn ex_env \<lparr>Conn = Some ex_conn_silent, Opts = GetDefaultOptions\<rparr> ex_pattern
       (ex_msg [3]) (DInt 5) ex_world) =
     events ex_world @ [EvPublish (Reply (ex_msg [3]))
       (fst (Marshal ex_env (fill_response
          (new_packet ex_pattern (Nuid ex_env (nuid_seq ex_world))) (DInt 5))))]"
    using live reply_fresh_id_original_pattern [of ex_env
        "\<lparr>Conn = Some ex_conn_silent, Opts = GetDefaultOptions\<rparr>" ex_pattern "ex_msg [3]" "DInt 5" ex_world]
    by blast
  then show ?thesis
    by (simp add: ex_msg_def ex_world_def ex_env_def ex_Unmarshal_def ex_Marshal_def
        fill_response_def new_packet_def RequestType_def zero_packet_def)
qed

text \<open>
  C6, as the claim states it: whenever the inbound bytes fail to decode, the envelope is
  left zero-valued and the handler runs with the zero pattern.  It fails on the input
  that stands for \<^verbatim>\<open>{"pattern":{"topic":"math"},"request":0}\<close>: the decoder reports an
  error after it has stored the pattern, and the handler is run with the topic math, not
  with the empty pattern.
\<close>

theorem onMessage_partial_decode_counterexample:
  "snd (Unmarshal ex_env (Data (ex_msg [0])) zero_packet) \<noteq> None
   \<and> onMessage ex_env \<lparr>Conn = Some ex_conn_silent, Opts = GetDefaultOptions\<rparr> ex_pattern
       ex_addHandler (ex_msg [0]) ex_world =
     \<lparr>events = [EvLog ''handler got topic math''], nuid_seq = 0\<rparr>
   \<and> ex_addHandler (Pattern zero_packet)
       (replyFn ex_env \<lparr>Conn = Some ex_conn_silent, Opts = GetDefaultOptions\<rparr> ex_pattern (ex_msg [0]))
       ex_world =
     \<lparr>events = [EvLog ''handler got topic ''], nuid_seq = 0\<rparr>"
  by (simp add: onMessage_unfold ex_env_def ex_Unmarshal_def ex_msg_def ex_addHandler_def
      index_map_def emit_def ex_world_def zero_packet_def)

text \<open>
  C6, amended.  For every inbound message the callback decodes into a zero-valued
  envelope, drops the decoder's error, and runs the handler exactly once with the
  pattern field as the decoder left it; that is the nil pattern whenever the decoder
  wrote nothing.  Whatever error the decoder returns, the callback behaves the same.
\<close>

theorem onMessage_lenient:
  "onMessage e h p handler m w =
     handler (Pattern (fst (Unmarshal e (Data m) zero_packet))) (replyFn e h p m) w
   \<and> (fst (Unmarshal e (Data m) zero_packet) = zero_packet \<longrightarrow>
        onMessage e h p handler m w = handler None (replyFn e h p m) w)
   \<and> onMessage (e\<lparr>Unmarshal := \<lambda>d pk. (fst (Unmarshal e d pk), err)\<rparr>) h p handler m w =
       onMessage e h p handler m w"
  by (simp add: onMessage_unfold replyFn_ignores_Unmarshal zero_packet_def)

theorem onMessage_lenient_witness:
  "Unmarshal ex_env (Data (ex_msg [])) zero_packet =
     (zero_packet, Some (ExternalError ''unexpected end of JSON input''))
   \<and> onMessage ex_env \<lparr>Conn = Some ex_conn_silent, Opts = GetDefaultOptions\<rparr> ex_pattern
       ex_addHandler (ex_msg []) ex_world =
     \<lparr>events = [EvLog ''handler got topic ''], nuid_seq = 0\<rparr>"
proof -
  have z: "Unmarshal ex_env (Data (ex_msg [])) zero_packet =
     (zero_packet, Some (ExternalError ''unexpected end of JSON input''))"
    by (simp add: ex_env_def ex_Unmarshal_def ex_msg_def)
  then have "fst (Unmarshal ex_env (Data (ex_msg [])) zero_packet) = zero_packet"
    by simp
  with onMessage_lenient [of ex_env "\<lparr>Conn = Some ex_conn_silent, Opts = GetDefaultOptions\<rparr>"
      ex_pattern ex_addHandler "ex_msg []" ex_world]
  have "onMessage ex_env \<lparr>Conn = Some ex_conn_silent, Opts = GetDefaultOptions\<rparr> ex_pattern
       ex_addHandler (ex_msg []) ex_world =
     ex_addHandler None (replyFn ex_env \<lparr>Conn = Some ex_conn_silent, Opts = GetDefaultOptions\<rparr>
       ex_pattern (ex_msg [])) ex_world"
    by blast
  with z show ?thesis
    by (simp add: ex_addHandler_def index_map_def emit_def ex_world_def)
qed

section \<open>The timeout\<close>

text \<open>
  C7.  \<^verbatim>\<open>NewHemera\<close> without options yields the timeout 2000, and \<^verbatim>\<open>Act\<close> on that
  instance hands the connection \<open>2000 * Millisecond\<close>, that is 2000 ms, as the time to
  wait; with the option \<^verbatim>\<open>Timeout(t)\<close> the field holds \<open>t\<close> and \<^verbatim>\<open>Act\<close> waits
  \<open>t * Millisecond\<close>.  The same holds when \<^verbatim>\<open>Timeout(t)\<close> comes last after any
  options that succeed.  The loop over the options runs them in order, each on the
  options left by the one before, and stops at the first error, which \<^verbatim>\<open>NewHemera\<close>
  returns with an instance that has no connection.
\<close>

theorem default_timeout_2000ms:
  "NewHemera conn [] = (\<lparr>Conn = conn, Opts = \<lparr>Timeout = 2000\<rparr>\<rparr>, None)
   \<and> NewHemera conn [Timeout_opt t] = (\<lparr>Conn = conn, Opts = \<lparr>Timeout = t\<rparr>\<rparr>, None)
   \<and> (assert_string (index_map p ''topic'') = (topic, True) \<longrightarrow>
        Act e (fst (NewHemera conn [])) p handler w =
          (case conn_Request conn topic (fst (Marshal e (new_packet p (Nuid e (nuid_seq w)))))
                  (2000 * Millisecond) (w\<lparr>nuid_seq := Suc (nuid_seq w)\<rparr>) of
             (res, w2) \<Rightarrow> act_receive e handler res w2)
        \<and> Act e (fst (NewHemera conn [Timeout_opt t])) p handler w =
          (case conn_Request conn topic (fst (Marshal e (new_packet p (Nuid e (nuid_seq w)))))
                  (t * Millisecond) (w\<lparr>nuid_seq := Suc (nuid_seq w)\<rparr>) of
             (res, w2) \<Rightarrow> act_receive e handler res w2))
   \<and> sint (2000 * Millisecond) = 2000 * 1000000
   \<and> (snd (apply_options pre GetDefaultOptions) = None \<longrightarrow>
        NewHemera conn (pre @ [Timeout_opt t]) = (\<lparr>Conn = conn, Opts = \<lparr>Timeout = t\<rparr>\<rparr>, None))
   \<and> (snd (apply_options pre GetDefaultOptions) = None
        \<and> assert_string (index_map p ''topic'') = (topic, True) \<longrightarrow>
        Act e (fst (NewHemera conn (pre @ [Timeout_opt t]))) p handler w =
          (case conn_Request conn topic (fst (Marshal e (new_packet p (Nuid e (nuid_seq w)))))
                  (t * Millisecond) (w\<lparr>nuid_seq := Suc (nuid_seq w)\<rparr>) of
             (res, w2) \<Rightarrow> act_receive e handler res w2))
   \<and> (apply_options pre GetDefaultOptions = (opts', Some err) \<longrightarrow>
        NewHemera conn (pre @ rest) = (\<lparr>Conn = None, Opts = opts'\<rparr>, Some err))
   \<and> (apply_options pre GetDefaultOptions = (opts', None) \<longrightarrow>
        NewHemera conn (pre @ rest) =
          (case apply_options rest opts' of
             (opts'', Some err) \<Rightarrow> (\<lparr>Conn = None, Opts = opts''\<rparr>, Some err)
           | (opts'', None) \<Rightarrow> (\<lparr>Conn = conn, Opts = opts''\<rparr>, None)))"
proof -
  have first: "NewHemera conn [] = (\<lparr>Conn = conn, Opts = \<lparr>Timeout = 2000\<rparr>\<rparr>, None)
      \<and> NewHemera conn [Timeout_opt t] = (\<lparr>Conn = conn, Opts = \<lparr>Timeout = t\<rparr>\<rparr>, None)"
    by (simp add: NewHemera_def GetDefaultOptions_def RequestTimeout_def Timeout_opt_def)
  have waits: "assert_string (index_map p ''topic'') = (topic, True) \<longrightarrow>
        Act e (fst (NewHemera conn [])) p handler w =
          (case conn_Request conn topic (fst (Marshal e (new_packet p (Nuid e (nuid_seq w)))))
                  (2000 * Millisecond) (w\<lparr>nuid_seq := Suc (nuid_seq w)\<rparr>) of
             (res, w2) \<Rightarrow> act_receive e handler res w2)
        \<and> Act e (fst (NewHemera conn [Timeout_opt t])) p handler w =
          (case conn_Request conn topic (fst (Marshal e (new_packet p (Nuid e (nuid_seq w)))))
                  (t * Millisecond) (w\<lparr>nuid_seq := Suc (nuid_seq w)\<rparr>) of
             (res, w2) \<Rightarrow> act_receive e handler res w2)"
    by (simp add: first Act_with_topic)
  have ms: "sint (2000 * Millisecond) = 2000 * 1000000"
    by (simp add: Millisecond_def)
  have last_wins: "snd (apply_options pre GetDefaultOptions) = None \<longrightarrow>
        NewHemera conn (pre @ [Timeout_opt t]) = (\<lparr>Conn = conn, Opts = \<lparr>Timeout = t\<rparr>\<rparr>, None)"
    by (simp add: NewHemera_Timeout_last)
  have last_waits: "snd (apply_options pre GetDefaultOptions) = None
        \<and> assert_string (index_map p ''topic'') = (topic, True) \<longrightarrow>
        Act e (fst (NewHemera conn (pre @ [Timeout_opt t]))) p handler w =
          (case conn_Request conn topic (fst (Marshal e (new_packet p (Nuid e (nuid_seq w)))))
                  (t * Millisecond) (w\<lparr>nuid_seq := Suc (nuid_seq w)\<rparr>) of
             (res, w2) \<Rightarrow> act_receive e handler res w2)"
    by (simp add: NewHemera_Timeout_last Act_with_topic)
  have stops: "apply_options pre GetDefaultOptions = (opts', Some err) \<longrightarrow>
        NewHemera conn (pre @ rest) = (\<lparr>Conn = None, Opts = opts'\<rparr>, Some err)"
    by (simp add: NewHemera_def apply_options_append)
  have goes_on: "apply_options pre GetDefaultOptions = (opts', None) \<longrightarrow>
        NewHemera conn (pre @ rest) =
          (case apply_options rest opts' of
             (opts'', Some err) \<Rightarrow> (\<lparr>Conn = None, Opts = opts''\<rparr>, Some err)
           | (opts'', None) \<Rightarrow> (\<lparr>Conn = conn, Opts = opts''\<rparr>, None))"
    by (simp add: NewHemera_def apply_options_append)
  from first waits ms last_wins last_waits stops goes_on show ?thesis
    by blast
qed

theorem default_timeout_2000ms_witness:
  "events (snd (Act ex_env (fst (NewHemera (Some ex_conn_silent) [])) ex_pattern ex_actHandler ex_world)) =
     [EvRequest ''math'' [78] 2000000000, EvLog ''Act could not be executed'']
   \<and> events (snd (Act ex_env (fst (NewHemera (Some ex_conn_silent) [Timeout_opt 200])) ex_pattern
        ex_actHandler ex_world)) =
     [EvRequest ''math'' [78] 200000000, EvLog ''Act could not be executed'']
   \<and> NewHemera (Some ex_conn_silent) [Timeout_opt 200, Timeout_opt 300] =
     (\<lparr>Conn = Some ex_conn_silent, Opts = \<lparr>Timeout = 300\<rparr>\<rparr>, None)
   \<and> events (snd (Act ex_env (fst (NewHemera (Some ex_conn_silent) [Timeout_opt 200, Timeout_opt 300]))
        ex_pattern ex_actHandler ex_world)) =
     [EvRequest ''math'' [78] 300000000, EvLog ''Act could not be executed'']
   \<and> NewHemera (Some ex_conn_silent) [Timeout_opt 200, ex_failing_opt, Timeout_opt 300] =
     (\<lparr>Conn = None, Opts = \<lparr>Timeout = 200\<rparr>\<rparr>, Some (ExternalError ''bad option''))
   \<and> NewHemera (Some ex_conn_silent) [Timeout_opt 300, Timeout_opt 200] =
     (\<lparr>Conn = Some ex_conn_silent, Opts = \<lparr>Timeout = 200\<rparr>\<rparr>, None)"
proof -
  note t = default_timeout_2000ms [of "Some ex_conn_silent" 200 ex_pattern "''math''" ex_env
      ex_actHandler ex_world]
  note u = default_timeout_2000ms [of "Some ex_conn_silent" 300 ex_pattern "''math''" ex_env
      ex_actHandler ex_world "[Timeout_opt 200]"]
  note v = default_timeout_2000ms [of "Some ex_conn_silent" 0 ex_pattern "''math''" ex_env
      ex_actHandler ex_world "[Timeout_opt 200, ex_failing_opt]" "\<lparr>Timeout = 200\<rparr>"
      "ExternalError ''bad option''" "[Timeout_opt 300]"]
  note x = default_timeout_2000ms [of "Some ex_conn_silent" 0 ex_pattern "''math''" ex_env
      ex_actHandler ex_world "[Timeout_opt 300]" "\<lparr>Timeout = 300\<rparr>" _ "[Timeout_opt 200]"]
  have pre1: "snd (apply_options [Timeout_opt 200] GetDefaultOptions) = None"
    by (simp add: Timeout_opt_def)
  have pre2: "apply_options [Timeout_opt 200, ex_failing_opt] GetDefaultOptions =
      (\<lparr>Timeout = 200\<rparr>, Some (ExternalError ''bad option''))"
    by (simp add: Timeout_opt_def ex_failing_opt_def GetDefaultOptions_def)
  have pre3: "apply_options [Timeout_opt 300] GetDefaultOptions = (\<lparr>Timeout = 300\<rparr>, None)"
    by (simp add: Timeout_opt_def GetDefaultOptions_def)
  from t ex_topic
  have a: "Act ex_env (fst (NewHemera (Some ex_conn_silent) [])) ex_pattern ex_actHandler ex_world =
          (case conn_Request (Some ex_conn_silent) ''math''
                  (fst (Marshal ex_env (new_packet ex_pattern (Nuid ex_env (nuid_seq ex_world)))))
                  (2000 * Millisecond) (ex_world\<lparr>nuid_seq := Suc (nuid_seq ex_world)\<rparr>) of
             (res, w2) \<Rightarrow> act_receive ex_env ex_actHandler res w2)"
    by blast
  from t ex_topic
  have b: "Act ex_env (fst (NewHemera (Some ex_conn_silent) [Timeout_opt 200])) ex_pattern ex_actHandler ex_world =
          (case conn_Request (Some ex_conn_silent) ''math''
                  (fst (Marshal ex_env (new_packet ex_pattern (Nuid ex_env (nuid_seq ex_world)))))
                  (200 * Millisecond) (ex_world\<lparr>nuid_seq := Suc (nuid_seq ex_world)\<rparr>) of
             (res, w2) \<Rightarrow> act_receive ex_env ex_actHandler res w2)"
    by blast
  from u pre1
  have c: "NewHemera (Some ex_conn_silent) ([Timeout_opt 200] @ [Timeout_opt 300]) =
     (\<lparr>Conn = Some ex_conn_silent, Opts = \<lparr>Timeout = 300\<rparr>\<rparr>, None)"
    by blast
  from u pre1 ex_topic
  have d: "Act ex_env (fst (NewHemera (Some ex_conn_silent) ([Timeout_opt 200] @ [Timeout_opt 300])))
        ex_pattern ex_actHandler ex_world =
          (case conn_Request (Some ex_conn_silent) ''math''
                  (fst (Marshal ex_env (new_packet ex_pattern (Nuid ex_env (nuid_seq ex_world)))))
                  (300 * Millisecond) (ex_world\<lparr>nuid_seq := Suc (nuid_seq ex_world)\<rparr>) of
             (res, w2) \<Rightarrow> act_receive ex_env ex_actHandler res w2)"
    by blast
  from v pre2
  have f: "NewHemera (Some ex_conn_silent) ([Timeout_opt 200, ex_failing_opt] @ [Timeout_opt 300]) =
     (\<lparr>Conn = None, Opts = \<lparr>Timeout = 200\<rparr>\<rparr>, Some (ExternalError ''bad option''))"
    by blast
  from x pre3
  have g: "NewHemera (Some ex_conn_silent) ([Timeout_opt 300] @ [Timeout_opt 200]) =
     (case apply_options [Timeout_opt 200] \<lparr>Timeout = 300\<rparr> of
        (opts'', Some err) \<Rightarrow> (\<lparr>Conn = None, Opts = opts''\<rparr>, Some err)
      | (opts'', None) \<Rightarrow> (\<lparr>Conn = Some ex_conn_silent, Opts = opts''\<rparr>, None))"
    by blast
  have ev: "events (snd (case conn_Request (Some ex_conn_silent) ''math''
                  (fst (Marshal ex_env (new_packet ex_pattern (Nuid ex_env (nuid_seq ex_world)))))
                  (k * Millisecond) (ex_world\<lparr>nuid_seq := Suc (nuid_seq ex_world)\<rparr>) of
             (res, w2) \<Rightarrow> act_receive ex_env ex_actHandler res w2)) =
      [EvRequest ''math'' [78] (k * 1000000), EvLog ''Act could not be executed'']" for k
    by (simp add: conn_Request_def ex_conn_silent_def act_receive_def log_Fatal_def emit_def
        ex_world_def ex_env_def ex_Marshal_def new_packet_def zero_packet_def Millisecond_def)
  have g': "NewHemera (Some ex_conn_silent) [Timeout_opt 300, Timeout_opt 200] =
     (\<lparr>Conn = Some ex_conn_silent, Opts = \<lparr>Timeout = 200\<rparr>\<rparr>, None)"
    using g by (simp add: Timeout_opt_def)
  show ?thesis
    using a b c d f g' ev [of 2000] ev [of 200] ev [of 300] by simp
qed

text \<open>
  C9, as the claim states it: for every configured \<open>t\<close> the wait is \<open>t * 10^6\<close>
  nanoseconds.  It fails for \<^verbatim>\<open>Timeout(3*time.Hour)\<close>: the \<^verbatim>\<open>int64\<close> product wraps
  around and the connection is given a negative duration.
\<close>

theorem Act_timeout_overflow_counterexample:
  "events (snd (Act ex_env (fst (NewHemera (Some ex_conn_silent) [Timeout_opt (3 * Hour)]))
       ex_pattern ex_actHandler ex_world)) =
     [EvRequest ''math'' [78] (- 7646744073709551616), EvLog ''Act could not be executed'']
   \<and> sint (- 7646744073709551616 :: Duration) = - 7646744073709551616
   \<and> sint (3 * Hour) * 1000000 = 10800000000000000000
   \<and> sint (- 7646744073709551616 :: Duration) \<noteq> sint (3 * Hour) * 1000000"
  by (simp add: Act_with_topic [OF ex_topic] NewHemera_def Timeout_opt_def GetDefaultOptions_def
      ex_env_def ex_world_def ex_Marshal_def new_packet_def zero_packet_def conn_Request_def
      ex_conn_silent_def act_receive_def log_Fatal_def emit_def Hour_def Millisecond_def)

text \<open>
  C9, amended.  \<^verbatim>\<open>Act\<close> hands the connection the \<^verbatim>\<open>int64\<close> product of the configured
  timeout and 1000000, which wraps around; it is \<open>t * 10^6\<close> nanoseconds for every \<open>t\<close>
  whose product fits into an \<^verbatim>\<open>int64\<close>, as for \<^verbatim>\<open>2*time.Second\<close>, which gives a wait
  \<open>10^6\<close> times longer.
\<close>

theorem Act_timeout_times_Millisecond:
  assumes "assert_string (index_map p ''topic'') = (topic, True)"
  shows "Act e h p handler w =
       (case conn_Request (Conn h) topic (fst (Marshal e (new_packet p (Nuid e (nuid_seq w)))))
               (Timeout (Opts h) * 1000000) (w\<lparr>nuid_seq := Suc (nuid_seq w)\<rparr>) of
          (res, w2) \<Rightarrow> act_receive e handler res w2)
     \<and> sint (Timeout (Opts h) * 1000000) = signed_take_bit 63 (sint (Timeout (Opts h)) * 1000000)
     \<and> (- (2 ^ 63) \<le> sint (Timeout (Opts h)) * 1000000
          \<and> sint (Timeout (Opts h)) * 1000000 < 2 ^ 63 \<longrightarrow>
        sint (Timeout (Opts h) * 1000000) = sint (Timeout (Opts h)) * 1000000)"
proof -
  have "sint (Timeout (Opts h) * 1000000) =
      signed_take_bit 63 (sint (Timeout (Opts h)) * sint (1000000 :: Duration))"
    by (simp add: sint_word_ariths)
  then have wrap: "sint (Timeout (Opts h) * 1000000) =
      signed_take_bit 63 (sint (Timeout (Opts h)) * 1000000)"
    by simp
  show ?thesis
    using sint_times_Millisecond [of "Timeout (Opts h)"] wrap
    by (simp add: Act_with_topic [OF assms] Millisecond_def)
qed

theorem Act_timeout_times_Millisecond_witness:
  "events (snd (Act ex_env \<lparr>Conn = Some ex_conn_silent, Opts = \<lparr>Timeout = 2 * Second\<rparr>\<rparr>
       ex_pattern ex_actHandler ex_world)) =
     [EvRequest ''math'' [78] 2000000000000000, EvLog ''Act could not be executed'']
   \<and> sint (2 * Second * 1000000) = sint (2 * Second) * 1000000
   \<and> sint (2 * Second) = 2000000000"
proof -
  note t = Act_timeout_times_Millisecond [OF ex_topic, of ex_env
      "\<lparr>Conn = Some ex_conn_silent, Opts = \<lparr>Timeout = 2 * Second\<rparr>\<rparr>" ex_actHandler ex_world]
  have s: "sint (2 * Second) = 2000000000"
    by (simp add: Second_def)
  have a: "Act ex_env \<lparr>Conn = Some ex_conn_silent, Opts = \<lparr>Timeout = 2 * Second\<rparr>\<rparr>
       ex_pattern ex_actHandler ex_world =
     (case conn_Request (Some ex_conn_silent) ''math''
             (fst (Marshal ex_env (new_packet ex_pattern (Nuid ex_env (nuid_seq ex_world)))))
             (2 * Second * 1000000) (ex_world\<lparr>nuid_seq := Suc (nuid_seq ex_world)\<rparr>) of
        (res, w2) \<Rightarrow> act_receive ex_env ex_actHandler res w2)"
    using t by simp
  have b: "sint (2 * Second * 1000000) = sint (2 * Second) * 1000000"
    using t s by simp
  show ?thesis
    unfolding a using b s
    by (simp add: conn_Request_def ex_conn_silent_def act_receive_def log_Fatal_def emit_def
        ex_world_def ex_env_def ex_Marshal_def new_packet_def zero_packet_def Second_def)
qed

section \<open>Error values by dynamic type\<close>

text \<open>
  C10.  The reply callback puts the payload into the error field only when its dynamic
  type is the struct \<^verbatim>\<open>Error\<close>; a \<^verbatim>\<open>*Error\<close>, any map (also one with the keys name,
  message and code) and every other value go to the result field.
\<close>

theorem reply_error_by_dynamic_type:
  "fill_response r (DError he) = r\<lparr>Error := Some he\<rparr>
   \<and> fill_response r (DErrorPtr he) = r\<lparr>Result := DErrorPtr he\<rparr>
   \<and> fill_response r (DMap kvs) = r\<lparr>Result := DMap kvs\<rparr>
   \<and> ((\<forall>x. payload \<noteq> DError x) \<longrightarrow> fill_response r payload = r\<lparr>Result := payload\<rparr>)
   \<and> replyFn e h p m payload w =
       conn_Publish (Conn h) (Reply m)
         (fst (Marshal e (fill_response (new_packet p (Nuid e (nuid_seq w))) payload)))
         (w\<lparr>nuid_seq := Suc (nuid_seq w)\<rparr>)"
  by (simp add: fill_response_Error fill_response_other assert_Error_iff replyFn_unfold)

theorem reply_error_by_dynamic_type_witness:
  "Error (fill_response zero_packet (DError ex_Error)) = Some ex_Error
   \<and> Result (fill_response zero_packet (DError ex_Error)) = DNil
   \<and> fill_response zero_packet (DErrorPtr ex_Error) = zero_packet\<lparr>Result := DErrorPtr ex_Error\<rparr>
   \<and> fill_response zero_packet
        (DMap [(''name'', DString ''DivByZero''), (''message'', DString ''b=0''), (''code'', DInt 400)]) =
      zero_packet\<lparr>Result :=
        DMap [(''name'', DString ''DivByZero''), (''message'', DString ''b=0''), (''code'', DInt 400)]\<rparr>
   \<and> fill_response zero_packet (DNamed ''MyError'' (DError ex_Error)) =
      zero_packet\<lparr>Result := DNamed ''MyError'' (DError ex_Error)\<rparr>"
proof -
  have n: "\<forall>x. DNamed ''MyError'' (DError ex_Error) \<noteq> DError x"
    by simp
  note t = reply_error_by_dynamic_type [of zero_packet ex_Error
      "[(''name'', DString ''DivByZero''), (''message'', DString ''b=0''), (''code'', DInt 400)]"
      "DNamed ''MyError'' (DError ex_Error)"]
  from t n have "fill_response zero_packet (DNamed ''MyError'' (DError ex_Error)) =
      zero_packet\<lparr>Result := DNamed ''MyError'' (DError ex_Error)\<rparr>"
    by blast
  with t show ?thesis
    by (simp add: zero_packet_def)
qed

end
